theory Spec2Isabelle
  imports Main
begin

section \<open>Python string primitives used by \<^verbatim>\<open>lamia/utilities/webfinger.py\<close>\<close>

text \<open>
  Identifiers are strings over 8-bit characters. In that range the decimal digits matched
  by the regular expression class \<^verbatim>\<open>\d\<close> are exactly \<^verbatim>\<open>0\<close> .. \<^verbatim>\<open>9\<close>.
\<close>

datatype error = ValueError | IndexError | NameError | HTTPException nat | ClientError

text \<open>\<^verbatim>\<open>s.startswith(p)\<close>\<close>

definition startswith :: "string \<Rightarrow> string \<Rightarrow> bool" where
  "startswith s p = (take (length p) s = p)"

text \<open>\<^verbatim>\<open>sub in s\<close> for strings\<close>

fun contains :: "string \<Rightarrow> string \<Rightarrow> bool" where
  "contains sub [] = (sub = [])"
| "contains sub (c # cs) = (startswith (c # cs) sub \<or> contains sub cs)"

text \<open>
  \<^verbatim>\<open>s.replace(old, new)\<close>: every occurrence, leftmost first, without overlaps. For the
  empty \<^verbatim>\<open>old\<close> Python puts \<^verbatim>\<open>new\<close> before every character and at the end.
\<close>

fun str_replace :: "string \<Rightarrow> string \<Rightarrow> string \<Rightarrow> string" where
  "str_replace old new [] = (if old = [] then new else [])"
| "str_replace old new (c # cs) =
     (if old = [] then new @ c # str_replace old new cs
      else if startswith (c # cs) old
           then new @ str_replace old new (drop (length old) (c # cs))
           else c # str_replace old new cs)"

text \<open>\<^verbatim>\<open>s.split(sep)\<close> for a separator of one character\<close>

fun split_chr :: "char \<Rightarrow> string \<Rightarrow> string list" where
  "split_chr sep [] = [[]]"
| "split_chr sep (c # cs) =
     (if c = sep then [] # split_chr sep cs
      else (case split_chr sep cs of
              [] \<Rightarrow> [[c]]
            | w # ws \<Rightarrow> (c # w) # ws))"

definition is_digit :: "char \<Rightarrow> bool" where
  "is_digit c = (c \<in> set ''0123456789'')"

definition is_alpha :: "char \<Rightarrow> bool" where
  "is_alpha c = (c \<in> set ''abcdefghijklmnopqrstuvwxyzABCDEFGHIJKLMNOPQRSTUVWXYZ'')"

text \<open>
  \<^verbatim>\<open>port_re = re.compile(r'\:\d+')\<close> and \<^verbatim>\<open>port_re.sub('', s)\<close>: every colon that is
  followed by at least one digit is removed together with the longest run of digits
  after it.
\<close>

function port_sub :: "string \<Rightarrow> string" where
  "port_sub [] = []"
| "port_sub (c # cs) =
     (if c = CHR '':'' \<and> cs \<noteq> [] \<and> is_digit (hd cs)
      then port_sub (dropWhile is_digit cs)
      else c # port_sub cs)"
  by pat_completeness auto
termination
  by (relation "measure length") (auto simp: le_imp_less_Suc length_dropWhile_le)

section \<open>The network location computed by \<^verbatim>\<open>urllib.parse.urlparse\<close>\<close>

text \<open>
  \<^verbatim>\<open>urlparse\<close> is the standard library's. The model follows \<^verbatim>\<open>urlsplit\<close> of
  CPython 3.11 and keeps what decides the \<^verbatim>\<open>netloc\<close> field and the exceptions. Two
  functions that \<^verbatim>\<open>urlsplit\<close> calls in other modules of the library are parameters:
  \<^verbatim>\<open>ipaddress.ip_address\<close>, which raises \<^verbatim>\<open>ValueError\<close> (\<open>None\<close>) or returns an address of
  version 4 or 6, and \<^verbatim>\<open>unicodedata.normalize('NFKC', _)\<close>.
\<close>

datatype ip_version = IPv4 | IPv6

record stdlib =
  ip_address :: "string \<Rightarrow> ip_version option"
  normalize_NFKC :: "string \<Rightarrow> string"

text \<open>\<^verbatim>\<open>c.isascii()\<close>\<close>

definition is_ascii :: "char \<Rightarrow> bool" where
  "is_ascii c = ((of_char c :: nat) < 128)"

text \<open>\<^verbatim>\<open>_WHATWG_C0_CONTROL_OR_SPACE\<close>: the characters \<^verbatim>\<open>\x00\<close> .. \<^verbatim>\<open>\x20\<close>\<close>

definition c0_control_or_space :: "char \<Rightarrow> bool" where
  "c0_control_or_space c = ((of_char c :: nat) \<le> 32)"

text \<open>
  \<^verbatim>\<open>for b in _UNSAFE_URL_BYTES_TO_REMOVE: url = url.replace(b, "")\<close>, with the bytes
  \<^verbatim>\<open>\t\<close>, \<^verbatim>\<open>\r\<close>, \<^verbatim>\<open>\n\<close> in this order
\<close>

definition remove_unsafe_bytes :: "string \<Rightarrow> string" where
  "remove_unsafe_bytes url =
     str_replace [CHR 0x0A] [] (str_replace [CHR 0x0D] [] (str_replace [CHR 0x09] [] url))"

definition scheme_chars :: "char \<Rightarrow> bool" where
  "scheme_chars c = (is_alpha c \<or> is_digit c \<or> c \<in> set ''+-.'')"

text \<open>\<^verbatim>\<open>_splitnetloc(url, 2)\<close>: from index 2 up to the first of \<^verbatim>\<open>/\<close>, \<^verbatim>\<open>?\<close>, \<^verbatim>\<open>#\<close>\<close>

definition splitnetloc :: "string \<Rightarrow> string" where
  "splitnetloc url = takeWhile (\<lambda>c. c \<notin> set ''/?#'') (drop 2 url)"

definition is_hex :: "char \<Rightarrow> bool" where
  "is_hex c = (c \<in> set ''abcdefABCDEF0123456789'')"

text \<open>
  \<^verbatim>\<open>_check_bracketed_host(hostname)\<close>: a host that starts with \<^verbatim>\<open>v\<close> has to match
  \<^verbatim>\<open>\Av[a-fA-F0-9]+\..+\Z\<close>, where the dot matches everything but a line feed; any other
  host has to be an address for \<^verbatim>\<open>ipaddress.ip_address\<close> and not one of version 4.
\<close>

definition check_bracketed_host :: "stdlib \<Rightarrow> string \<Rightarrow> error + unit" where
  "check_bracketed_host lib hostname =
     (if startswith hostname ''v''
      then (let digits = takeWhile is_hex (tl hostname);
                rest = dropWhile is_hex (tl hostname)
            in if digits \<noteq> [] \<and> startswith rest ''.'' \<and> tl rest \<noteq> [] \<and>
                  CHR 0x0A \<notin> set (tl rest)
               then Inr ()
               else Inl ValueError)
      else (case ip_address lib hostname of
              None \<Rightarrow> Inl ValueError
            | Some IPv4 \<Rightarrow> Inl ValueError
            | Some IPv6 \<Rightarrow> Inr ()))"

text \<open>
  \<^verbatim>\<open>_checknetloc(netloc)\<close>: nothing to check for an empty or ASCII network location;
  otherwise \<^verbatim>\<open>@\<close>, \<^verbatim>\<open>:\<close>, \<^verbatim>\<open>#\<close>, \<^verbatim>\<open>?\<close> are taken out, and when normalisation changes
  the rest and brings in one of \<^verbatim>\<open>/?#@:\<close>, \<^verbatim>\<open>ValueError\<close> is raised.
\<close>

definition checknetloc :: "stdlib \<Rightarrow> string \<Rightarrow> error + unit" where
  "checknetloc lib netloc =
     (if netloc = [] \<or> list_all is_ascii netloc then Inr ()
      else (let n = str_replace ''?'' []
                      (str_replace ''#'' []
                        (str_replace '':'' [] (str_replace ''@'' [] netloc)));
                netloc2 = normalize_NFKC lib n
            in if n = netloc2 then Inr ()
               else if list_ex (\<lambda>c. c \<in> set netloc2) ''/?#@:'' then Inl ValueError
               else Inr ()))"

text \<open>
  \<^verbatim>\<open>urlsplit(url).netloc\<close>. Leading control characters and spaces are stripped and
  \<^verbatim>\<open>\t\<close>, \<^verbatim>\<open>\r\<close>, \<^verbatim>\<open>\n\<close> are removed; with \<^verbatim>\<open>i = url.find(':')\<close>, the text before
  the colon is a scheme when \<^verbatim>\<open>i > 0\<close>, the first character is an ASCII letter and all
  of it are scheme characters; the network location is read when what follows starts
  with \<^verbatim>\<open>//\<close>, and is then checked for its square brackets and by \<^verbatim>\<open>_checknetloc\<close>.
\<close>

definition urlparse_netloc :: "stdlib \<Rightarrow> string \<Rightarrow> error + string" where
  "urlparse_netloc lib url0 =
     (let url1 = remove_unsafe_bytes (dropWhile c0_control_or_space url0);
          i = length (takeWhile (\<lambda>c. c \<noteq> CHR '':'') url1);
          url2 = (if i < length url1 \<and> 0 < i \<and> is_ascii (hd url1) \<and> is_alpha (hd url1) \<and>
                     list_all scheme_chars (take i url1)
                  then drop (i + 1) url1
                  else url1)
      in if take 2 url2 = ''//''
         then (let netloc = splitnetloc url2 in
               if (CHR ''['' \<in> set netloc \<and> CHR '']'' \<notin> set netloc) \<or>
                  (CHR '']'' \<in> set netloc \<and> CHR ''['' \<notin> set netloc)
               then Inl ValueError
               else (case (if CHR ''['' \<in> set netloc \<and> CHR '']'' \<in> set netloc
                           then check_bracketed_host lib
                                  (takeWhile (\<lambda>c. c \<noteq> CHR '']'')
                                     (tl (dropWhile (\<lambda>c. c \<noteq> CHR ''['') netloc)))
                           else Inr ()) of
                       Inl e \<Rightarrow> Inl e
                     | Inr u \<Rightarrow>
                         (case checknetloc lib netloc of
                            Inl e \<Rightarrow> Inl e
                          | Inr u \<Rightarrow> Inr netloc)))
         else (case checknetloc lib [] of
                 Inl e \<Rightarrow> Inl e
               | Inr u \<Rightarrow> Inr []))"

section \<open>\<^verbatim>\<open>normalize\<close>\<close>

text \<open>Line 34-35: drop the \<^verbatim>\<open>acct:\<close> portion\<close>

definition strip_acct :: "string \<Rightarrow> string" where
  "strip_acct identifier =
     (if startswith identifier ''acct:'' then drop 5 identifier else identifier)"

text \<open>Line 40-41: drop the port portion\<close>

definition drop_port :: "string \<Rightarrow> string" where
  "drop_port s =
     (if CHR '':'' \<in> set (str_replace ''://'' [] s) then port_sub s else s)"

text \<open>Line 45-66: the three return paths, on the identifier as it stands after line 41\<close>

definition resolve :: "stdlib \<Rightarrow> string \<Rightarrow> error + (string \<times> string)" where
  "resolve lib s =
     (if startswith s ''http''
      then (case urlparse_netloc lib s of
              Inl e \<Rightarrow> Inl e
            | Inr netloc \<Rightarrow>
                Inr (str_replace ''http://'' [] (str_replace ''https://'' [] s),
                     ''https://'' @ netloc))
      else if CHR ''@'' \<in> set s \<and> \<not> contains ''/@'' s
      then (let split_id = split_chr CHR ''@'' s in
            if 1 < length split_id
            then Inr (s, ''https://'' @ split_id ! 1)
            else Inl IndexError)
      else (case urlparse_netloc lib (''https://'' @ s) of
              Inl e \<Rightarrow> Inl e
            | Inr netloc \<Rightarrow> Inr (s, ''https://'' @ netloc)))"

definition normalize :: "stdlib \<Rightarrow> string \<Rightarrow> error + (string \<times> string)" where
  "normalize lib identifier = resolve lib (drop_port (strip_acct identifier))"

text \<open>
  A port segment in the sense of \<^verbatim>\<open>port_re\<close>: a colon immediately followed by a digit.
\<close>

fun has_port :: "string \<Rightarrow> bool" where
  "has_port [] = False"
| "has_port (c # cs) =
     ((c = CHR '':'' \<and> cs \<noteq> [] \<and> is_digit (hd cs)) \<or> has_port cs)"

text \<open>
  The closed examples below run with this instance of the two library functions. None of
  their inputs holds a non-ASCII character or both square brackets, so that neither
  function is called on them.
\<close>

definition example_lib :: stdlib where
  "example_lib = \<lparr>ip_address = (\<lambda>hostname. None), normalize_NFKC = (\<lambda>n. n)\<rparr>"

section \<open>\<^verbatim>\<open>finger\<close>\<close>

text \<open>
  The call \<^verbatim>\<open>async_session.get(url, headers=headers, params=params)\<close> is the one effect of
  \<^verbatim>\<open>finger\<close>; the model returns the list of requests issued together with the result.
  The transport is a parameter, and so is \<^verbatim>\<open>__version__\<close>, which the module
  \<^verbatim>\<open>lamia.version\<close> defines. A transport that fails raises, for instance, the
  \<^verbatim>\<open>ClientError\<close> of \<^verbatim>\<open>aiohttp\<close>.
\<close>

record request =
  req_method :: string
  req_url :: string
  req_headers :: "(string \<times> string) list"
  req_params :: "(string \<times> string) list"

text \<open>
  Line 88 is \<^verbatim>\<open>return await json.loads(response.read())\<close>. The module imports
  \<^verbatim>\<open>asyncio\<close>, \<^verbatim>\<open>re\<close>, \<^verbatim>\<open>ClientSession\<close>, \<^verbatim>\<open>__version__\<close> and \<^verbatim>\<open>urlparse\<close> and binds
  no name \<^verbatim>\<open>json\<close>, so that looking the name up raises \<^verbatim>\<open>NameError\<close> before the body
  of the response is read.
\<close>

definition finger ::
  "stdlib \<Rightarrow> string \<Rightarrow> (request \<Rightarrow> error + 'resp) \<Rightarrow> string \<Rightarrow>
     request list \<times> (error + 'json)"
where
  "finger lib version session_get identifier =
     (let headers = [(''Accept'', ''q=2, application/jrd+json; q=1, application/json''),
                     (''User-Agent'', ''Lamia/'' @ version)]
      in case normalize lib identifier of
           Inl e \<Rightarrow> ([], Inl e)
         | Inr (uid, url) \<Rightarrow>
             (let params = [(''resource'', uid)];
                  url = url @ ''/.well-known/webfinger'';
                  req = \<lparr>req_method = ''GET'', req_url = url,
                         req_headers = headers, req_params = params\<rparr>
              in case session_get req of
                   Inl e \<Rightarrow> ([req], Inl e)
                 | Inr response \<Rightarrow> ([req], Inl NameError)))"

section \<open>The not-found helpers of \<^verbatim>\<open>lamia/middleware/gino.py\<close>\<close>

text \<open>
  The awaited \<^verbatim>\<open>get\<close> or \<^verbatim>\<open>first\<close> of the base class is a parameter: it raises
  (\<open>Inl\<close>) or returns \<^verbatim>\<open>None\<close> or a row.
\<close>

definition get_or_404 :: "('args \<Rightarrow> error + 'row option) \<Rightarrow> 'args \<Rightarrow> error + 'row" where
  "get_or_404 cls_get args =
     (case cls_get args of
        Inl e \<Rightarrow> Inl e
      | Inr rv \<Rightarrow> (case rv of None \<Rightarrow> Inl (HTTPException 404) | Some row \<Rightarrow> Inr row))"

definition executor_first_or_404 ::
  "('args \<Rightarrow> error + 'row option) \<Rightarrow> 'args \<Rightarrow> error + 'row" where
  "executor_first_or_404 self_first args =
     (case self_first args of
        Inl e \<Rightarrow> Inl e
      | Inr rv \<Rightarrow> (case rv of None \<Rightarrow> Inl (HTTPException 404) | Some row \<Rightarrow> Inr row))"

definition connection_first_or_404 ::
  "('args \<Rightarrow> error + 'row option) \<Rightarrow> 'args \<Rightarrow> error + 'row" where
  "connection_first_or_404 self_first args =
     (case self_first args of
        Inl e \<Rightarrow> Inl e
      | Inr rv \<Rightarrow> (case rv of None \<Rightarrow> Inl (HTTPException 404) | Some row \<Rightarrow> Inr row))"

definition engine_first_or_404 ::
  "('args \<Rightarrow> error + 'row option) \<Rightarrow> 'args \<Rightarrow> error + 'row" where
  "engine_first_or_404 self_first args =
     (case self_first args of
        Inl e \<Rightarrow> Inl e
      | Inr rv \<Rightarrow> (case rv of None \<Rightarrow> Inl (HTTPException 404) | Some row \<Rightarrow> Inr row))"

section \<open>The relationship ledger\<close>

text \<open>
  \<^verbatim>\<open>lamia/models/features.py\<close> declares the tables \<^verbatim>\<open>follows\<close> and \<^verbatim>\<open>blocks\<close>; the
  records below are their columns, with the key columns as the keys of the maps. The
  operations on them are not in that module and are modelled from the transition table
  of the specification.
\<close>

type_synonym actor_id = nat
type_synonym account_id = nat

record follow_edge =
  pending_review :: bool
  approved :: bool
  blocked :: bool
  created :: nat
  last_updated :: nat

record ledger =
  follows :: "actor_id \<times> actor_id \<rightharpoonup> follow_edge"
  blocks :: "account_id \<times> actor_id \<rightharpoonup> nat"
  actor_account :: "actor_id \<rightharpoonup> account_id"
  approval_for_follows :: "account_id \<Rightarrow> bool"

datatype ledger_error = RelationshipConflict

text \<open>
  Modelled from the spec: the states of the follow state machine, which the repository
  has no code for. \<^verbatim>\<open>PENDING\<close> is \<^verbatim>\<open>pendingReview=true, approved=false, blocked=false\<close>;
  \<^verbatim>\<open>APPROVED\<close> is \<^verbatim>\<open>pendingReview=false, approved=true\<close>; \<^verbatim>\<open>BLOCKED\<close> is \<^verbatim>\<open>blocked=true\<close>,
  which the blocking scenario reads back as \<^verbatim>\<open>blocked=true, approved=false\<close>; a
  neutralized edge has no flag set. Entering a state sets the flags that the state names
  and no other.
\<close>

definition is_PENDING :: "follow_edge \<Rightarrow> bool" where
  "is_PENDING e = (pending_review e \<and> \<not> approved e \<and> \<not> blocked e)"

definition is_APPROVED :: "follow_edge \<Rightarrow> bool" where
  "is_APPROVED e = (\<not> pending_review e \<and> approved e)"

definition is_NONE :: "follow_edge \<Rightarrow> bool" where
  "is_NONE e = (\<not> pending_review e \<and> \<not> approved e \<and> \<not> blocked e)"

definition to_PENDING :: "follow_edge \<Rightarrow> follow_edge" where
  "to_PENDING e = e\<lparr>pending_review := True, approved := False, blocked := False\<rparr>"

definition to_APPROVED :: "follow_edge \<Rightarrow> follow_edge" where
  "to_APPROVED e = e\<lparr>pending_review := False, approved := True\<rparr>"

definition to_BLOCKED :: "follow_edge \<Rightarrow> follow_edge" where
  "to_BLOCKED e = e\<lparr>blocked := True, approved := False\<rparr>"

definition new_edge :: "nat \<Rightarrow> follow_edge" where
  "new_edge now =
     \<lparr>pending_review = False, approved = False, blocked = False,
      created = now, last_updated = now\<rparr>"

text \<open>
  Modelled from the spec: \<^verbatim>\<open>requestFollow(src,tgt)\<close>, absent from the repository.
  Precondition: no existing non-blocked edge, or the prior edge is in \<^verbatim>\<open>NONE\<close>. Effect:
  create or update the edge to \<^verbatim>\<open>PENDING\<close>, unless the target's account has
  \<^verbatim>\<open>approval_for_follows=false\<close>, in which case go directly to \<^verbatim>\<open>APPROVED\<close>. \<^verbatim>\<open>BLOCKED\<close>
  is terminal, so a request on a blocked edge leaves the ledger as it is.
\<close>

definition requestFollow ::
  "nat \<Rightarrow> actor_id \<Rightarrow> actor_id \<Rightarrow> ledger \<Rightarrow> ledger_error + ledger" where
  "requestFollow now src tgt s =
     (let direct = (case actor_account s tgt of
                      None \<Rightarrow> False
                    | Some account \<Rightarrow> \<not> approval_for_follows s account);
          enter = (\<lambda>e. (if direct then to_APPROVED e else to_PENDING e)\<lparr>last_updated := now\<rparr>)
      in case follows s (src, tgt) of
           None \<Rightarrow> Inr (s\<lparr>follows := (follows s)((src, tgt) \<mapsto> enter (new_edge now))\<rparr>)
         | Some e \<Rightarrow>
             if blocked e then Inr s
             else if is_NONE e
                  then Inr (s\<lparr>follows := (follows s)((src, tgt) \<mapsto> enter e)\<rparr>)
                  else Inl RelationshipConflict)"

text \<open>
  Modelled from the spec: \<^verbatim>\<open>approveFollow(src,tgt)\<close>, absent from the repository.
  Precondition: the edge exists and is \<^verbatim>\<open>PENDING\<close>. Effect: the edge goes to \<^verbatim>\<open>APPROVED\<close>.
\<close>

definition approveFollow ::
  "nat \<Rightarrow> actor_id \<Rightarrow> actor_id \<Rightarrow> ledger \<Rightarrow> ledger_error + ledger" where
  "approveFollow now src tgt s =
     (case follows s (src, tgt) of
        None \<Rightarrow> Inl RelationshipConflict
      | Some e \<Rightarrow>
          if is_PENDING e
          then Inr (s\<lparr>follows := (follows s)((src, tgt) \<mapsto> (to_APPROVED e)\<lparr>last_updated := now\<rparr>)\<rparr>)
          else Inl RelationshipConflict)"

text \<open>
  Modelled from the spec: \<^verbatim>\<open>rejectFollow(src,tgt)\<close>, absent from the repository.
  Precondition: the edge exists and is \<^verbatim>\<open>PENDING\<close>. Effect: the edge is removed.
\<close>

definition rejectFollow :: "actor_id \<Rightarrow> actor_id \<Rightarrow> ledger \<Rightarrow> ledger_error + ledger" where
  "rejectFollow src tgt s =
     (case follows s (src, tgt) of
        None \<Rightarrow> Inl RelationshipConflict
      | Some e \<Rightarrow>
          if is_PENDING e
          then Inr (s\<lparr>follows := (follows s)((src, tgt) := None)\<rparr>)
          else Inl RelationshipConflict)"

text \<open>
  Modelled from the spec: \<^verbatim>\<open>unfollow(src,tgt)\<close>, absent from the repository.
  Precondition: the edge exists and is \<^verbatim>\<open>APPROVED\<close>. Effect: the edge is removed.
\<close>

definition unfollow :: "actor_id \<Rightarrow> actor_id \<Rightarrow> ledger \<Rightarrow> ledger_error + ledger" where
  "unfollow src tgt s =
     (case follows s (src, tgt) of
        None \<Rightarrow> Inl RelationshipConflict
      | Some e \<Rightarrow>
          if is_APPROVED e
          then Inr (s\<lparr>follows := (follows s)((src, tgt) := None)\<rparr>)
          else Inl RelationshipConflict)"

text \<open>
  Modelled from the spec: \<^verbatim>\<open>blockViaAccount(account,target)\<close>, absent from the
  repository. No precondition. Effect: for every actor owned by the account, force any
  edge with the target, in either direction, into \<^verbatim>\<open>BLOCKED\<close>; create the BlockEdge. An
  edge that is blocked already and a BlockEdge that exists already are left as they are,
  so that reapplying a block changes nothing. The whole update is one transition.
\<close>

definition blockViaAccount ::
  "nat \<Rightarrow> account_id \<Rightarrow> actor_id \<Rightarrow> ledger \<Rightarrow> ledger_error + ledger" where
  "blockViaAccount now account target s =
     Inr (s\<lparr>follows :=
               (\<lambda>(a, b).
                  case follows s (a, b) of
                    None \<Rightarrow> None
                  | Some e \<Rightarrow>
                      if (b = target \<and> actor_account s a = Some account) \<or>
                         (a = target \<and> actor_account s b = Some account)
                      then (if blocked e \<and> \<not> approved e then Some e
                            else Some ((to_BLOCKED e)\<lparr>last_updated := now\<rparr>))
                      else Some e),
            blocks :=
               (case blocks s (account, target) of
                  None \<Rightarrow> (blocks s)((account, target) \<mapsto> now)
                | Some t \<Rightarrow> blocks s)\<rparr>)"

datatype ledger_op =
    RequestFollow nat actor_id actor_id
  | ApproveFollow nat actor_id actor_id
  | RejectFollow actor_id actor_id
  | Unfollow actor_id actor_id
  | BlockViaAccount nat account_id actor_id

fun step :: "ledger_op \<Rightarrow> ledger \<Rightarrow> ledger_error + ledger" where
  "step (RequestFollow now src tgt) s = requestFollow now src tgt s"
| "step (ApproveFollow now src tgt) s = approveFollow now src tgt s"
| "step (RejectFollow src tgt) s = rejectFollow src tgt s"
| "step (Unfollow src tgt) s = unfollow src tgt s"
| "step (BlockViaAccount now account target) s = blockViaAccount now account target s"

text \<open>
  A sequence of operations: an operation whose precondition fails reports
  \<^verbatim>\<open>RelationshipConflict\<close> to its caller and leaves the ledger unchanged.
\<close>

fun run :: "ledger_op list \<Rightarrow> ledger \<Rightarrow> ledger" where
  "run [] s = s"
| "run (x # xs) s = run xs (case step x s of Inl err \<Rightarrow> s | Inr s' \<Rightarrow> s')"

text \<open>Two small ledgers on which the operations are run below.\<close>

definition ledger_one :: ledger where
  "ledger_one =
     \<lparr>follows = Map.empty, blocks = Map.empty,
      actor_account = [1 \<mapsto> 10, 2 \<mapsto> 20],
      approval_for_follows = (\<lambda>account. True)\<rparr>"

definition ledger_two :: ledger where
  "ledger_two =
     \<lparr>follows = [(1, 2) \<mapsto> \<lparr>pending_review = False, approved = True, blocked = False,
                             created = 100, last_updated = 101\<rparr>],
      blocks = Map.empty,
      actor_account = [1 \<mapsto> 10],
      approval_for_follows = (\<lambda>account. True)\<rparr>"

section \<open>Auxiliary facts about the string primitives\<close>

lemma no_port_port_sub: "\<not> has_port s \<Longrightarrow> port_sub s = s"
  by (induction s rule: port_sub.induct) auto

lemma no_colon_no_port:
  "CHR '':'' \<notin> set (str_replace ''://'' [] s) \<Longrightarrow> \<not> has_port s"
proof (induction "''://''" "[]::string" s rule: str_replace.induct)
  case 1
  then show ?case by simp
next
  case (2 c cs)
  show ?case
  proof (cases "startswith (c # cs) ''://''")
    case True
    then obtain r where r: "c = CHR '':''" "cs = CHR ''/'' # CHR ''/'' # r"
      by (cases cs; cases "tl cs") (auto simp: startswith_def)
    with 2 True have "\<not> has_port (drop 3 (c # cs))" by simp
    with r show ?thesis by (simp add: is_digit_def)
  next
    case False
    with 2 show ?thesis by auto
  qed
qed

lemma drop_port_eq: "drop_port s = port_sub s"
  unfolding drop_port_def using no_colon_no_port no_port_port_sub by auto

lemma split_chr_eq:
  "split_chr c s = takeWhile (\<lambda>x. x \<noteq> c) s #
     (if c \<in> set s then split_chr c (tl (dropWhile (\<lambda>x. x \<noteq> c) s)) else [])"
  by (induction s) (auto split: list.splits)

lemma split_chr_second:
  assumes "c \<in> set s"
  shows "1 < length (split_chr c s)"
    and "split_chr c s ! 1 = takeWhile (\<lambda>x. x \<noteq> c) (tl (dropWhile (\<lambda>x. x \<noteq> c) s))"
proof -
  let ?r = "tl (dropWhile (\<lambda>x. x \<noteq> c) s)"
  have e: "split_chr c s = takeWhile (\<lambda>x. x \<noteq> c) s # split_chr c ?r"
    using assms split_chr_eq [of c s] by simp
  have f: "split_chr c ?r = takeWhile (\<lambda>x. x \<noteq> c) ?r #
     (if c \<in> set ?r then split_chr c (tl (dropWhile (\<lambda>x. x \<noteq> c) ?r)) else [])"
    by (rule split_chr_eq)
  show "1 < length (split_chr c s)" by (subst e, subst f) simp
  show "split_chr c s ! 1 = takeWhile (\<lambda>x. x \<noteq> c) ?r" by (subst e, subst f) simp
qed

lemma str_replace_absent:
  "old \<noteq> [] \<Longrightarrow> \<not> contains old s \<Longrightarrow> str_replace old new s = s"
  by (induction s) auto

lemma port_sub_http: "port_sub (''http://'' @ r) = ''http://'' @ port_sub r"
  by (simp add: is_digit_def)

lemma port_sub_https: "port_sub (''https://'' @ r) = ''https://'' @ port_sub r"
  by (simp add: is_digit_def)

lemma strip_acct_http: "strip_acct (''http://'' @ r) = ''http://'' @ r"
  by (simp add: strip_acct_def startswith_def)

lemma strip_acct_https: "strip_acct (''https://'' @ r) = ''https://'' @ r"
  by (simp add: strip_acct_def startswith_def)

lemma replace_http:
  assumes "\<not> contains ''https://'' r" "\<not> contains ''http://'' r"
  shows "str_replace ''http://'' [] (str_replace ''https://'' [] (''http://'' @ r)) = r"
proof -
  have "str_replace ''https://'' [] (''http://'' @ r) = ''http://'' @ str_replace ''https://'' [] r"
    by (simp add: startswith_def)
  also have "\<dots> = ''http://'' @ r" using assms(1) by (simp add: str_replace_absent)
  finally have "str_replace ''http://'' [] (str_replace ''https://'' [] (''http://'' @ r))
      = str_replace ''http://'' [] (''http://'' @ r)" by simp
  also have "\<dots> = str_replace ''http://'' [] r" by (simp add: startswith_def)
  also have "\<dots> = r" using assms(2) by (simp add: str_replace_absent)
  finally show ?thesis .
qed

lemma replace_https:
  assumes "\<not> contains ''https://'' r" "\<not> contains ''http://'' r"
  shows "str_replace ''http://'' [] (str_replace ''https://'' [] (''https://'' @ r)) = r"
proof -
  have "str_replace ''https://'' [] (''https://'' @ r) = str_replace ''https://'' [] r"
    by (simp add: startswith_def)
  also have "\<dots> = r" using assms(1) by (simp add: str_replace_absent)
  finally show ?thesis using assms(2) by (simp add: str_replace_absent)
qed

lemma set_port_sub: "set (port_sub s) \<subseteq> set s"
proof (induction s rule: port_sub.induct)
  case 1
  then show ?case by simp
next
  case (2 c cs)
  have "set (dropWhile is_digit cs) \<subseteq> set cs" by (meson set_dropWhileD subsetI)
  with 2 show ?case by auto
qed



lemma str_replace_chr_absent: "c \<notin> set s \<Longrightarrow> str_replace [c] [] s = s"
  by (induction s) (auto simp: startswith_def)

lemma remove_unsafe_bytes_id:
  assumes "CHR 0x09 \<notin> set s" "CHR 0x0D \<notin> set s" "CHR 0x0A \<notin> set s"
  shows "remove_unsafe_bytes s = s"
  unfolding remove_unsafe_bytes_def using assms by (simp add: str_replace_chr_absent)





lemma checknetloc_ascii: "list_all is_ascii n \<Longrightarrow> checknetloc lib n = Inr ()"
  by (simp add: checknetloc_def)



lemma urlparse_netloc_scheme:
  assumes "scheme = ''http://'' \<or> scheme = ''https://''"
    and "CHR 0x09 \<notin> set r" "CHR 0x0D \<notin> set r" "CHR 0x0A \<notin> set r"
    and "netloc = takeWhile (\<lambda>c. c \<notin> set ''/?#'') r"
    and "CHR ''['' \<notin> set netloc" "CHR '']'' \<notin> set netloc"
    and "list_all is_ascii netloc"
  shows "urlparse_netloc lib (scheme @ r) = Inr netloc"
proof -
  have a: "dropWhile c0_control_or_space (scheme @ r) = scheme @ r"
    using assms(1) by (auto simp: c0_control_or_space_def)
  have b: "remove_unsafe_bytes (scheme @ r) = scheme @ r"
    using assms(1-4) by (intro remove_unsafe_bytes_id) auto
  have c: "splitnetloc (''//'' @ r) = netloc"
    by (simp add: splitnetloc_def assms(5))
  from assms(1) show ?thesis
  proof
    assume s: "scheme = ''http://''"
    have "urlparse_netloc lib (''http://'' @ r) = Inr netloc"
      unfolding urlparse_netloc_def a [unfolded s] b [unfolded s]
      using c assms(6-8)
      by (simp add: Let_def scheme_chars_def is_alpha_def is_ascii_def checknetloc_ascii)
    with s show ?thesis by simp
  next
    assume s: "scheme = ''https://''"
    have "urlparse_netloc lib (''https://'' @ r) = Inr netloc"
      unfolding urlparse_netloc_def a [unfolded s] b [unfolded s]
      using c assms(6-8)
      by (simp add: Let_def scheme_chars_def is_alpha_def is_ascii_def checknetloc_ascii)
    with s show ?thesis by simp
  qed
qed

section \<open>Properties of \<^verbatim>\<open>normalize\<close>\<close>

lemma normalize_lamia:
  "normalize lib ''acct:lamia@lamia.social'' =
     Inr (''lamia@lamia.social'', ''https://lamia.social'')"
  by code_simp

text \<open>
  C1. An identifier \<^verbatim>\<open>acct:user@host\<close> should give the resource id \<^verbatim>\<open>user@host\<close> and the
  discovery base \<^verbatim>\<open>https://host\<close>. The test of line 45 is \<^verbatim>\<open>startswith('http')\<close>, not a
  test for a scheme, so a user name that begins with \<^verbatim>\<open>http\<close> sends the identifier down
  the address path, where \<^verbatim>\<open>urlparse\<close> finds no network location: for
  \<^verbatim>\<open>acct:httpfan@lamia.social\<close> the discovery base is \<^verbatim>\<open>https://\<close> with no host.
\<close>

theorem normalize_http_user_name:
  "normalize lib ''acct:httpfan@lamia.social'' = Inr (''httpfan@lamia.social'', ''https://'')"
  by code_simp

text \<open>
  C4, as stated: for an identifier that starts with an HTTP(S) scheme the resource id is
  the input with the scheme stripped and the discovery base is \<^verbatim>\<open>https://\<close> plus the URL's
  host. Neither holds: line 41 has removed the port segments before the scheme is
  stripped, and line 49 takes the whole network location, user part included.
\<close>

theorem normalize_http_address_counterexample:
  "normalize example_lib ''https://user@lamia.social:8080/u/lamia'' =
     Inr (''user@lamia.social/u/lamia'', ''https://user@lamia.social'') \<and>
   ''user@lamia.social/u/lamia'' \<noteq> ''user@lamia.social:8080/u/lamia'' \<and>
   ''https://user@lamia.social'' \<noteq> ''https://lamia.social''"
  by code_simp

text \<open>
  C4, amended. For an identifier \<^verbatim>\<open>http://\<close>\<open>r\<close> or \<^verbatim>\<open>https://\<close>\<open>r\<close> without \<^verbatim>\<open>\t\<close>, \<^verbatim>\<open>\r\<close>
  or \<^verbatim>\<open>\n\<close>, let \<open>r'\<close> be \<open>r\<close> with every port segment removed and let the network location
  be the part of \<open>r'\<close> before the first \<^verbatim>\<open>/\<close>, \<^verbatim>\<open>?\<close> or \<^verbatim>\<open>#\<close>, a user part included. When
  \<open>r'\<close> holds no further \<^verbatim>\<open>http://\<close> or \<^verbatim>\<open>https://\<close> and the network location is ASCII
  and has no square bracket, the resource id is \<open>r'\<close>, path retained, and the discovery
  base is \<^verbatim>\<open>https://\<close> followed by the network location and nothing else.
\<close>

theorem normalize_http_address:
  assumes "scheme = ''http://'' \<or> scheme = ''https://''"
    and "CHR 0x09 \<notin> set r \<and> CHR 0x0D \<notin> set r \<and> CHR 0x0A \<notin> set r"
    and "\<not> contains ''https://'' (port_sub r)"
    and "\<not> contains ''http://'' (port_sub r)"
    and "netloc = takeWhile (\<lambda>c. c \<notin> set ''/?#'') (port_sub r)"
    and "CHR ''['' \<notin> set netloc \<and> CHR '']'' \<notin> set netloc"
    and "list_all is_ascii netloc"
  shows "normalize lib (scheme @ r) = Inr (port_sub r, ''https://'' @ netloc)"
proof -
  have clean: "CHR 0x09 \<notin> set (port_sub r)" "CHR 0x0D \<notin> set (port_sub r)"
      "CHR 0x0A \<notin> set (port_sub r)"
    using assms(2) set_port_sub [of r] by blast+
  have n: "urlparse_netloc lib (scheme @ port_sub r) = Inr netloc"
    using assms(1) clean assms(5) assms(6) [THEN conjunct1] assms(6) [THEN conjunct2] assms(7)
    by (rule urlparse_netloc_scheme)
  from assms(1) show ?thesis
  proof
    assume s: "scheme = ''http://''"
    have "normalize lib (scheme @ r) = resolve lib (''http://'' @ port_sub r)"
      unfolding normalize_def s strip_acct_http drop_port_eq port_sub_http ..
    also have "\<dots> = Inr (port_sub r, ''https://'' @ netloc)"
      unfolding resolve_def n [unfolded s] replace_http [OF assms(3,4)]
      by (simp add: startswith_def)
    finally show ?thesis .
  next
    assume s: "scheme = ''https://''"
    have "normalize lib (scheme @ r) = resolve lib (''https://'' @ port_sub r)"
      unfolding normalize_def s strip_acct_https drop_port_eq port_sub_https ..
    also have "\<dots> = Inr (port_sub r, ''https://'' @ netloc)"
      unfolding resolve_def n [unfolded s] replace_https [OF assms(3,4)]
      by (simp add: startswith_def)
    finally show ?thesis .
  qed
qed

theorem normalize_http_address_witness:
  "CHR 0x09 \<notin> set ''user@lamia.social:8080/u/lamia?page=2'' \<and>
   CHR 0x0D \<notin> set ''user@lamia.social:8080/u/lamia?page=2'' \<and>
   CHR 0x0A \<notin> set ''user@lamia.social:8080/u/lamia?page=2'' \<and>
   \<not> contains ''https://'' (port_sub ''user@lamia.social:8080/u/lamia?page=2'') \<and>
   \<not> contains ''http://'' (port_sub ''user@lamia.social:8080/u/lamia?page=2'') \<and>
   ''user@lamia.social'' =
     takeWhile (\<lambda>c. c \<notin> set ''/?#'') (port_sub ''user@lamia.social:8080/u/lamia?page=2'') \<and>
   CHR ''['' \<notin> set ''user@lamia.social'' \<and> CHR '']'' \<notin> set ''user@lamia.social'' \<and>
   list_all is_ascii ''user@lamia.social'' \<and>
   normalize example_lib (''https://'' @ ''user@lamia.social:8080/u/lamia?page=2'') =
     Inr (port_sub ''user@lamia.social:8080/u/lamia?page=2'',
          ''https://'' @ ''user@lamia.social'')"
proof -
  have a: "''https://'' = ''http://'' \<or> ''https://'' = ''https://''" by simp
  have b: "CHR 0x09 \<notin> set ''user@lamia.social:8080/u/lamia?page=2'' \<and>
      CHR 0x0D \<notin> set ''user@lamia.social:8080/u/lamia?page=2'' \<and>
      CHR 0x0A \<notin> set ''user@lamia.social:8080/u/lamia?page=2''" by simp
  have c: "\<not> contains ''https://'' (port_sub ''user@lamia.social:8080/u/lamia?page=2'')"
    by code_simp
  have d: "\<not> contains ''http://'' (port_sub ''user@lamia.social:8080/u/lamia?page=2'')"
    by code_simp
  have e: "''user@lamia.social'' =
     takeWhile (\<lambda>c. c \<notin> set ''/?#'') (port_sub ''user@lamia.social:8080/u/lamia?page=2'')"
    by code_simp
  have f: "CHR ''['' \<notin> set ''user@lamia.social'' \<and> CHR '']'' \<notin> set ''user@lamia.social''"
    by simp
  have g: "list_all is_ascii ''user@lamia.social''" by code_simp
  from b c d e f g normalize_http_address [OF a b c d e f g, of example_lib]
  show ?thesis by blast
qed

text \<open>
  C5, as stated: an email-style identifier is split on the first \<^verbatim>\<open>@\<close> only and the
  discovery base holds everything after it. It does not: line 55 splits on every \<^verbatim>\<open>@\<close>
  and line 58 takes the second piece.
\<close>

theorem normalize_email_style_counterexample:
  "normalize example_lib ''lamia@lamia.social@example.com'' =
     Inr (''lamia@lamia.social@example.com'', ''https://lamia.social'') \<and>
   normalize example_lib ''lamia@lamia.social@example.com'' \<noteq>
     Inr (''lamia@lamia.social@example.com'', ''https://lamia.social@example.com'')"
  by code_simp

text \<open>
  C5, amended. Let \<open>t\<close> be the identifier after the \<^verbatim>\<open>acct:\<close> prefix and the port segments
  are removed. When \<open>t\<close> does not start with \<^verbatim>\<open>http\<close>, contains \<^verbatim>\<open>@\<close> and does not contain
  \<^verbatim>\<open>/@\<close>, the resource id is \<open>t\<close> and the discovery base is \<^verbatim>\<open>https://\<close> followed by the
  text between the first \<^verbatim>\<open>@\<close> and the next one, or the end of \<open>t\<close> when there is no other.
\<close>

theorem normalize_email_style:
  assumes "t = port_sub (strip_acct s)"
    and "\<not> startswith t ''http''"
    and "CHR ''@'' \<in> set t"
    and "\<not> contains ''/@'' t"
  shows "normalize lib s =
           Inr (t, ''https://'' @
                   takeWhile (\<lambda>c. c \<noteq> CHR ''@'') (tl (dropWhile (\<lambda>c. c \<noteq> CHR ''@'') t)))"
proof -
  have "normalize lib s = resolve lib t"
    by (simp add: normalize_def drop_port_eq assms(1))
  also have "\<dots> = Inr (t, ''https://'' @ split_chr CHR ''@'' t ! 1)"
    using assms(2,3,4) split_chr_second(1) [OF assms(3)]
    by (simp add: resolve_def Let_def)
  finally show ?thesis using split_chr_second(2) [OF assms(3)] by simp
qed

theorem normalize_email_style_witness:
  "''lamia@lamia.social@example.com'' =
     port_sub (strip_acct ''acct:lamia@lamia.social:8080@example.com'') \<and>
   \<not> startswith ''lamia@lamia.social@example.com'' ''http'' \<and>
   CHR ''@'' \<in> set ''lamia@lamia.social@example.com'' \<and>
   \<not> contains ''/@'' ''lamia@lamia.social@example.com'' \<and>
   normalize example_lib ''acct:lamia@lamia.social:8080@example.com'' =
     Inr (''lamia@lamia.social@example.com'', ''https://lamia.social'')"
proof -
  have a: "''lamia@lamia.social@example.com'' =
     port_sub (strip_acct ''acct:lamia@lamia.social:8080@example.com'')" by code_simp
  have b: "\<not> startswith ''lamia@lamia.social@example.com'' ''http''" by code_simp
  have c: "CHR ''@'' \<in> set ''lamia@lamia.social@example.com''" by simp
  have d: "\<not> contains ''/@'' ''lamia@lamia.social@example.com''" by code_simp
  have "normalize example_lib ''acct:lamia@lamia.social:8080@example.com'' =
     Inr (''lamia@lamia.social@example.com'', ''https://lamia.social'')"
    using normalize_email_style [OF a b c d, of example_lib] by simp
  with a b c d show ?thesis by blast
qed




text \<open>
  C7. An identifier with a colon outside of \<^verbatim>\<open>://\<close> should come back with the port
  dropped and a discovery base that has no port. The pattern of line 18 wants the digits
  right after the colon, and \<^verbatim>\<open>urlparse\<close> removes \<^verbatim>\<open>\t\<close>, \<^verbatim>\<open>\r\<close> and \<^verbatim>\<open>\n\<close> from the
  string before it reads the network location: for \<^verbatim>\<open>lamia.social:\<close>, a tab and \<^verbatim>\<open>8080\<close>
  the test of line 40 holds, line 41 removes nothing, and the discovery base is
  \<^verbatim>\<open>https://lamia.social:8080\<close>, port included.
\<close>

theorem normalize_port_after_tab:
  "CHR '':'' \<in> set (str_replace ''://'' [] (strip_acct (''lamia.social:'' @ [CHR 0x09] @ ''8080''))) \<and>
   normalize lib (''lamia.social:'' @ [CHR 0x09] @ ''8080'') =
     Inr (''lamia.social:'' @ [CHR 0x09] @ ''8080'', ''https://lamia.social:8080'') \<and>
   has_port ''https://lamia.social:8080''"
  by code_simp

section \<open>Properties of \<^verbatim>\<open>finger\<close>\<close>

text \<open>
  C8. Whenever the normalizer gives a resource id and a discovery base, \<^verbatim>\<open>finger\<close> hands
  the transport one request, and what \<^verbatim>\<open>finger\<close> does next depends on the transport's
  answer to it: a GET to the base followed by \<^verbatim>\<open>/.well-known/webfinger\<close>, with the
  resource id as the \<^verbatim>\<open>resource\<close> parameter, an \<^verbatim>\<open>Accept\<close> header that names
  \<^verbatim>\<open>application/jrd+json\<close> before \<^verbatim>\<open>application/json\<close>, and the \<^verbatim>\<open>User-Agent\<close> header
  \<^verbatim>\<open>Lamia/\<close> followed by the version, whatever the identifier. An error of the transport
  on that request is the error of \<^verbatim>\<open>finger\<close>.
\<close>

theorem finger_request:
  assumes "normalize lib identifier = Inr (uid, base)"
  shows "(finger lib version session_get identifier :: request list \<times> (error + 'json)) =
     ([\<lparr>req_method = ''GET'',
        req_url = base @ ''/.well-known/webfinger'',
        req_headers = [(''Accept'', ''q=2, application/jrd+json; q=1, application/json''),
                       (''User-Agent'', ''Lamia/'' @ version)],
        req_params = [(''resource'', uid)]\<rparr>],
      (case session_get
              \<lparr>req_method = ''GET'',
               req_url = base @ ''/.well-known/webfinger'',
               req_headers = [(''Accept'', ''q=2, application/jrd+json; q=1, application/json''),
                              (''User-Agent'', ''Lamia/'' @ version)],
               req_params = [(''resource'', uid)]\<rparr> of
         Inl e \<Rightarrow> Inl e
       | Inr response \<Rightarrow> Inl NameError))"
  using assms by (simp add: finger_def Let_def split: sum.splits)

theorem finger_request_witness:
  "normalize example_lib ''acct:lamia@lamia.social'' =
     Inr (''lamia@lamia.social'', ''https://lamia.social'') \<and>
   (finger example_lib ''0.1.0''
      (\<lambda>r. if req_method r = ''GET'' \<and>
               req_url r = ''https://lamia.social/.well-known/webfinger'' \<and>
               req_params r = [(''resource'', ''lamia@lamia.social'')]
            then Inl ClientError else Inr ''body'')
      ''acct:lamia@lamia.social'' :: request list \<times> (error + string)) =
     ([\<lparr>req_method = ''GET'',
        req_url = ''https://lamia.social/.well-known/webfinger'',
        req_headers = [(''Accept'', ''q=2, application/jrd+json; q=1, application/json''),
                       (''User-Agent'', ''Lamia/0.1.0'')],
        req_params = [(''resource'', ''lamia@lamia.social'')]\<rparr>],
      Inl ClientError)"
  using normalize_lamia [of example_lib]
    finger_request [OF normalize_lamia, of example_lib "''0.1.0''"
      "\<lambda>r. if req_method r = ''GET'' \<and>
               req_url r = ''https://lamia.social/.well-known/webfinger'' \<and>
               req_params r = [(''resource'', ''lamia@lamia.social'')]
            then Inl ClientError else Inr ''body''"]
  by simp

text \<open>
  C9. With a responder that answers the descriptor of the scenario, \<^verbatim>\<open>finger\<close> issues its
  request and then fails with \<^verbatim>\<open>NameError\<close> on line 88: no descriptor is returned and no
  actor URI is obtained.
\<close>

theorem finger_scenario_fails:
  \<open>(finger lib ''0.1.0''
      (\<lambda>r. Inr ''{"subject":"acct:lamia@lamia.social","links":[{"rel":"self","href":"https://lamia.social/u/lamia"}]}'')
      ''acct:lamia@lamia.social'' :: request list \<times> (error + string)) =
   ([\<lparr>req_method = ''GET'',
      req_url = ''https://lamia.social/.well-known/webfinger'',
      req_headers = [(''Accept'', ''q=2, application/jrd+json; q=1, application/json''),
                     (''User-Agent'', ''Lamia/0.1.0'')],
      req_params = [(''resource'', ''lamia@lamia.social'')]\<rparr>],
    Inl NameError)\<close>
  by (simp add: finger_def normalize_lamia)

section \<open>Properties of the not-found helpers\<close>

text \<open>
  C10. When the underlying \<^verbatim>\<open>get\<close> or \<^verbatim>\<open>first\<close> returns, each of the four helpers raises
  \<^verbatim>\<open>HTTPException(404)\<close> if and only if the value returned is \<^verbatim>\<open>None\<close>, and otherwise
  returns the fetched row unchanged.
\<close>

theorem or_404_iff_None:
  assumes "f args = Inr rv"
  shows "(get_or_404 f args = Inl (HTTPException 404) \<longleftrightarrow> rv = None) \<and>
         (\<forall>row. rv = Some row \<longrightarrow> get_or_404 f args = Inr row) \<and>
         (executor_first_or_404 f args = Inl (HTTPException 404) \<longleftrightarrow> rv = None) \<and>
         (\<forall>row. rv = Some row \<longrightarrow> executor_first_or_404 f args = Inr row) \<and>
         (connection_first_or_404 f args = Inl (HTTPException 404) \<longleftrightarrow> rv = None) \<and>
         (\<forall>row. rv = Some row \<longrightarrow> connection_first_or_404 f args = Inr row) \<and>
         (engine_first_or_404 f args = Inl (HTTPException 404) \<longleftrightarrow> rv = None) \<and>
         (\<forall>row. rv = Some row \<longrightarrow> engine_first_or_404 f args = Inr row)"
  using assms
  by (simp add: get_or_404_def executor_first_or_404_def connection_first_or_404_def
      engine_first_or_404_def split: option.splits)

theorem or_404_iff_None_witness:
  "(\<lambda>k::nat. if k = 1 then Inr (Some ''lamia'') else Inr None) 1 = Inr (Some ''lamia'') \<and>
   get_or_404 (\<lambda>k::nat. if k = 1 then Inr (Some ''lamia'') else Inr None) 1 = Inr ''lamia'' \<and>
   (\<lambda>k::nat. if k = 1 then Inr (Some ''lamia'') else Inr None) 2 = Inr None \<and>
   engine_first_or_404 (\<lambda>k::nat. if k = 1 then Inr (Some ''lamia'') else Inr None) 2 =
     Inl (HTTPException 404)"
  using or_404_iff_None [of "\<lambda>k::nat. if k = 1 then Inr (Some ''lamia'') else Inr None" 1 "Some ''lamia''"]
    or_404_iff_None [of "\<lambda>k::nat. if k = 1 then Inr (Some ''lamia'') else Inr None" 2 None]
  by simp

section \<open>Properties of the relationship ledger\<close>

lemma step_inv:
  assumes "\<forall>k e. follows s k = Some e \<longrightarrow> \<not> (approved e \<and> blocked e)"
    and "step x s = Inr s'"
  shows "\<forall>k e. follows s' k = Some e \<longrightarrow> \<not> (approved e \<and> blocked e)"
proof (cases x)
  case (RequestFollow now src tgt)
  with assms show ?thesis
    by (auto simp: requestFollow_def Let_def is_NONE_def to_APPROVED_def to_PENDING_def
        new_edge_def split: option.splits if_splits)
next
  case (ApproveFollow now src tgt)
  with assms show ?thesis
    by (auto simp: approveFollow_def is_PENDING_def to_APPROVED_def
        split: option.splits if_splits)
next
  case (RejectFollow src tgt)
  with assms show ?thesis
    by (auto simp: rejectFollow_def split: option.splits if_splits)
next
  case (Unfollow src tgt)
  with assms show ?thesis
    by (auto simp: unfollow_def split: option.splits if_splits)
next
  case (BlockViaAccount now account target)
  with assms show ?thesis
    by (auto simp: blockViaAccount_def to_BLOCKED_def split: option.splits if_splits)
qed

text \<open>
  C2. From a ledger in which no follow edge is both approved and blocked, any sequence of
  \<^verbatim>\<open>requestFollow\<close>, \<^verbatim>\<open>approveFollow\<close>, \<^verbatim>\<open>rejectFollow\<close>, \<^verbatim>\<open>unfollow\<close> and
  \<^verbatim>\<open>blockViaAccount\<close> leads to a ledger in which no follow edge is both approved and
  blocked; the empty ledger is such a start.
\<close>

theorem run_never_approved_and_blocked:
  assumes "\<forall>k e. follows s k = Some e \<longrightarrow> \<not> (approved e \<and> blocked e)"
  shows "\<forall>k e. follows (run ops s) k = Some e \<longrightarrow> \<not> (approved e \<and> blocked e)"
  using assms
proof (induction ops arbitrary: s)
  case Nil
  then show ?case by simp
next
  case (Cons x xs)
  show ?case
  proof (cases "step x s")
    case (Inl err)
    with Cons show ?thesis by simp
  next
    case (Inr s')
    with Cons.prems have "\<forall>k e. follows s' k = Some e \<longrightarrow> \<not> (approved e \<and> blocked e)"
      using step_inv by blast
    with Cons.IH [of s'] Inr show ?thesis by simp
  qed
qed

theorem run_never_approved_and_blocked_witness:
  "follows (run [RequestFollow 100 2 1, ApproveFollow 101 2 1, BlockViaAccount 102 10 2]
              ledger_one) (2, 1) =
     Some \<lparr>pending_review = False, approved = False, blocked = True,
           created = 100, last_updated = 102\<rparr> \<and>
   \<not> (approved \<lparr>pending_review = False, approved = False, blocked = True,
                 created = 100, last_updated = 102\<rparr> \<and>
      blocked \<lparr>pending_review = False, approved = False, blocked = True,
                created = 100, last_updated = 102\<rparr>)"
proof -
  have a: "\<forall>k e. follows ledger_one k = Some e \<longrightarrow> \<not> (approved e \<and> blocked e)"
    by (simp add: ledger_one_def)
  have b: "follows (run [RequestFollow 100 2 1, ApproveFollow 101 2 1, BlockViaAccount 102 10 2]
              ledger_one) (2, 1) =
     Some \<lparr>pending_review = False, approved = False, blocked = True,
           created = 100, last_updated = 102\<rparr>"
    by (simp add: ledger_one_def requestFollow_def approveFollow_def blockViaAccount_def
        Let_def new_edge_def to_PENDING_def to_APPROVED_def to_BLOCKED_def is_PENDING_def)
  from b run_never_approved_and_blocked [OF a] show ?thesis by blast
qed

text \<open>
  C3. When an \<^verbatim>\<open>APPROVED\<close> follow edge links an actor of the account and the target, in
  either direction, \<^verbatim>\<open>blockViaAccount\<close> succeeds and, in the one ledger it returns, that
  edge reads \<^verbatim>\<open>blocked=true, approved=false\<close>, the BlockEdge of the account and the target
  exists, and every follow edge between an actor of the account and the target, in both
  directions, reads \<^verbatim>\<open>blocked=true, approved=false\<close>.
\<close>

theorem blockViaAccount_severs:
  assumes "actor_account s a = Some account"
    and "k = (a, target) \<or> k = (target, a)"
    and "follows s k = Some e"
    and "is_APPROVED e"
  shows "\<exists>s'. blockViaAccount now account target s = Inr s' \<and>
           blocks s' (account, target) \<noteq> None \<and>
           (\<exists>e'. follows s' k = Some e' \<and> blocked e' \<and> \<not> approved e') \<and>
           (\<forall>b d. actor_account s b = Some account \<longrightarrow>
              (follows s (b, target) = Some d \<longrightarrow>
                 (\<exists>d'. follows s' (b, target) = Some d' \<and> blocked d' \<and> \<not> approved d')) \<and>
              (follows s (target, b) = Some d \<longrightarrow>
                 (\<exists>d'. follows s' (target, b) = Some d' \<and> blocked d' \<and> \<not> approved d')))"
  using assms
  by (auto simp: blockViaAccount_def to_BLOCKED_def is_APPROVED_def split: option.splits)

theorem blockViaAccount_severs_witness:
  "actor_account ledger_two 1 = Some 10 \<and>
   follows ledger_two (1, 2) =
     Some \<lparr>pending_review = False, approved = True, blocked = False,
           created = 100, last_updated = 101\<rparr> \<and>
   is_APPROVED \<lparr>pending_review = False, approved = True, blocked = False,
                created = 100, last_updated = 101\<rparr> \<and>
   (\<exists>s'. blockViaAccount 102 10 2 ledger_two = Inr s' \<and>
         blocks s' (10, 2) \<noteq> None \<and>
         (\<exists>e'. follows s' (1, 2) = Some e' \<and> blocked e' \<and> \<not> approved e'))"
proof -
  have a: "actor_account ledger_two 1 = Some 10" by (simp add: ledger_two_def)
  have b: "(1, 2) = (1::nat, 2::nat) \<or> (1, 2) = (2::nat, 1::nat)" by simp
  have c: "follows ledger_two (1, 2) =
     Some \<lparr>pending_review = False, approved = True, blocked = False,
           created = 100, last_updated = 101\<rparr>" by (simp add: ledger_two_def)
  have d: "is_APPROVED \<lparr>pending_review = False, approved = True, blocked = False,
                created = 100, last_updated = 101\<rparr>" by (simp add: is_APPROVED_def)
  from a c d blockViaAccount_severs [OF a b c d, of 102] show ?thesis by blast
qed

end
